theory Spec2Isabelle
  imports Complex_Main "HOL-Library.Log_Nat"
begin

section \<open>Dates\<close>

text \<open>
  \<^verbatim>\<open>Date\<close> (ql/time/date.hpp) is not among the sources.  The code under study reads a
  date only through its accessors and its comparison operators, so a date is the record of
  what those return: the serial number, on which \<^verbatim>\<open>==\<close>, \<^verbatim>\<open><\<close> and \<^verbatim>\<open>>=\<close> work, and the
  calendar fields.  \<^verbatim>\<open>Day\<close> and \<^verbatim>\<open>Year\<close> are \<^verbatim>\<open>Integer\<close> in QuantLib.
\<close>

datatype Weekday = Sunday | Monday | Tuesday | Wednesday | Thursday | Friday | Saturday

datatype Month = January | February | March | April | May | June
  | July | August | September | October | November | December

type_synonym Day = int
type_synonym Year = int

record Date =
  serialNumber :: int
  weekday :: Weekday
  dayOfMonth :: Day
  dayOfYear :: Day
  month :: Month
  year :: Year

definition date_eq :: "Date \<Rightarrow> Date \<Rightarrow> bool" where
  "date_eq d1 d2 = (serialNumber d1 = serialNumber d2)"

definition date_ge :: "Date \<Rightarrow> Date \<Rightarrow> bool" where
  "date_ge d1 d2 = (serialNumber d2 \<le> serialNumber d1)"

definition date_less :: "Date \<Rightarrow> Date \<Rightarrow> bool" where
  "date_less d1 d2 = (serialNumber d1 < serialNumber d2)"

section \<open>The TARGET calendar (ql/time/calendars/target.cpp)\<close>

text \<open>
  \<^verbatim>\<open>TARGET::Impl\<close> derives from \<^verbatim>\<open>Calendar::WesternImpl\<close>, which gives it \<^verbatim>\<open>isWeekend\<close> and
  \<^verbatim>\<open>easterMonday\<close>; both live in ql/time/calendar.cpp, which is not among the sources.

  Modelled from the class documentation in target.hpp (its holiday list starts with
  Saturdays and Sundays): \<^verbatim>\<open>Calendar::WesternImpl::isWeekend\<close>.
\<close>

definition isWeekend :: "Weekday \<Rightarrow> bool" where
  "isWeekend w = (w = Saturday \<or> w = Sunday)"

text \<open>
  \<^verbatim>\<open>easterMonday(y)\<close> is a table lookup giving the day of the year of Easter Monday; the
  table is absent, so it is a parameter of the model.  The body follows
  \<^verbatim>\<open>TARGET::Impl::isBusinessDay\<close> line by line.
\<close>

definition isBusinessDay :: "(Year \<Rightarrow> Day) \<Rightarrow> Date \<Rightarrow> bool" where
  "isBusinessDay easterMonday date =
     (let w = weekday date;
          d = dayOfMonth date; dd = dayOfYear date;
          m = month date;
          y = year date;
          em = easterMonday y
      in if isWeekend w
            \<or> (d = 1 \<and> m = January)
            \<or> (dd = em - 3 \<and> y \<ge> 2000)
            \<or> (dd = em \<and> y \<ge> 2000)
            \<or> (d = 1 \<and> m = May \<and> y \<ge> 2000)
            \<or> (d = 25 \<and> m = December)
            \<or> (d = 26 \<and> m = December \<and> y \<ge> 2000)
            \<or> (d = 31 \<and> m = December \<and> (y = 1998 \<or> y = 1999 \<or> y = 2001))
         then False
         else True)"

text \<open>Sample dates, with the fields the real calendar gives them.\<close>

definition goodFriday2000 :: Date where
  "goodFriday2000 = \<lparr>serialNumber = 36637, weekday = Friday, dayOfMonth = 21,
     dayOfYear = 112, month = April, year = 2000\<rparr>"

definition goodFriday1999 :: Date where
  "goodFriday1999 = \<lparr>serialNumber = 36252, weekday = Friday, dayOfMonth = 2,
     dayOfYear = 92, month = April, year = 1999\<rparr>"

text \<open>Easter Monday fell on 5 April 1999 (day 95) and on 24 April 2000 (day 115).\<close>

definition easterMonday_sample :: "Year \<Rightarrow> Day" where
  "easterMonday_sample y = (if y = 1999 then 95 else 115)"

section \<open>Errors, reals and handles\<close>

text \<open>
  \<^verbatim>\<open>QL_FAIL\<close> and \<^verbatim>\<open>QL_REQUIRE\<close> throw \<^verbatim>\<open>QuantLib::Error\<close> with a message; the model
  returns the error with that message.  Dereferencing a null \<^verbatim>\<open>shared_ptr\<close> is undefined
  in C++; the model makes it the outcome \<open>NullPointer\<close>.

  \<^verbatim>\<open>Real\<close> is \<^verbatim>\<open>double\<close>.  The functions below only use \<^verbatim>\<open>/\<close>, \<^verbatim>\<open>-\<close>, \<^verbatim>\<open>*\<close>, \<^verbatim>\<open>0.0\<close> and
  \<^verbatim>\<open>1.0\<close>, so the model leaves the type of reals open (\<open>'r\<close>) and assumes no law of
  arithmetic: what is proved for every \<open>'r\<close> holds for floating-point numbers too.
  Numeric examples are evaluated in \<^typ>\<open>real\<close>, which is exact arithmetic, and, where
  rounding matters, in the doubles of the next section.
\<close>

datatype error = Error string | NullPointer

text \<open>
  \<^verbatim>\<open>Handle<T>\<close> (ql/handle.hpp, not among the sources) is a shared link to an object that
  may be absent.  A handle is modelled by what its link holds at the moment, \<open>None\<close> when
  \<^verbatim>\<open>empty()\<close>; relinking a handle that an object holds is an update of that field.
\<close>

type_synonym 'a Handle = "'a option"

text \<open>
  Modelled from the spec: \<^verbatim>\<open>Quote\<close> and \<^verbatim>\<open>SimpleQuote\<close> (ql/quotes), a single named
  numeric market value.
\<close>

datatype 'r Quote = SimpleQuote (quoteValue: 'r)

section \<open>Doubles\<close>

text \<open>
  Where a property depends on rounding, the open type of reals is instantiated with this
  model of IEEE 754 binary64 numbers.  A finite double is \<open>Double m e\<close>, worth
  \<open>m * 2 ^ e\<close>, kept with a 53-bit mantissa (\<open>2 ^ 52 \<le> \<bar>m\<bar> < 2 ^ 53\<close>) or as \<open>Double 0 0\<close>.
  Every operation rounds its exact result once, to nearest, ties to even, as the hardware
  does.  The exponent is not bounded and zero has no sign; \<open>NotFinite\<close> stands for the
  infinities and NaN together and absorbs every operation, which is not IEEE (there a finite
  number divided by an infinity is zero).  The examples stay far from all of that.
\<close>

datatype double = Double (mantissa: int) (exponent: int) | NotFinite

text \<open>The double nearest to \<open>n * 2 ^ e\<close>.\<close>

definition roundToNearestEven :: "int \<Rightarrow> int \<Rightarrow> double" where
  "roundToNearestEven n e =
     (if n = 0 then Double 0 0
      else
        let b = bitlen \<bar>n\<bar> in
        if b \<le> 53 then Double (n * 2 ^ nat (53 - b)) (e - (53 - b))
        else
          let s = nat (b - 53);
              q = \<bar>n\<bar> div 2 ^ s;
              r = \<bar>n\<bar> mod 2 ^ s;
              half = 2 ^ (s - 1);
              q' = (if half < r \<or> (r = half \<and> odd q) then q + 1 else q)
          in if q' = 2 ^ 53 then Double (sgn n * 2 ^ 52) (e + int s + 1)
             else Double (sgn n * q') (e + int s))"

text \<open>
  A literal: the double nearest to an integer.  A decimal literal such as \<^verbatim>\<open>1.10\<close> is the
  double nearest to 11/10, which is the correctly rounded quotient
  \<open>double_of_int 11 / double_of_int 10\<close>.
\<close>

definition double_of_int :: "int \<Rightarrow> double" where
  "double_of_int n = roundToNearestEven n 0"

text \<open>
  The quotient is computed with 64 bits more than the divisor has and a sticky bit for a
  non-zero remainder, so that the single rounding sees on which side of a tie it is.
\<close>

instantiation double :: "{zero,one,minus,times,inverse}"
begin

definition zero_double :: double where
  "zero_double = Double 0 0"

definition one_double :: double where
  "one_double = double_of_int 1"

definition times_double :: "double \<Rightarrow> double \<Rightarrow> double" where
  "times_double x y =
     (case (x, y) of
        (Double m1 e1, Double m2 e2) \<Rightarrow> roundToNearestEven (m1 * m2) (e1 + e2)
      | _ \<Rightarrow> NotFinite)"

definition minus_double :: "double \<Rightarrow> double \<Rightarrow> double" where
  "minus_double x y =
     (case (x, y) of
        (Double m1 e1, Double m2 e2) \<Rightarrow>
          (let e = min e1 e2
           in roundToNearestEven (m1 * 2 ^ nat (e1 - e) - m2 * 2 ^ nat (e2 - e)) e)
      | _ \<Rightarrow> NotFinite)"

definition divide_double :: "double \<Rightarrow> double \<Rightarrow> double" where
  "divide_double x y =
     (case (x, y) of
        (Double m1 e1, Double m2 e2) \<Rightarrow>
          (if m2 = 0 then NotFinite
           else
             let k = nat (bitlen \<bar>m2\<bar>) + 64;
                 q = (\<bar>m1\<bar> * 2 ^ k) div \<bar>m2\<bar>;
                 sticky = (if (\<bar>m1\<bar> * 2 ^ k) mod \<bar>m2\<bar> = 0 then 0 else 1)
             in roundToNearestEven (sgn m1 * sgn m2 * (2 * q + sticky)) (e1 - e2 - int k - 1))
      | _ \<Rightarrow> NotFinite)"

definition inverse_double :: "double \<Rightarrow> double" where
  "inverse_double x = divide (double_of_int 1) x"

instance ..

end

section \<open>Term structures\<close>

text \<open>
  Curves and surfaces are external collaborators.  A curve supplied by the caller is
  \<open>MarketCurve\<close>, known by its name and its day-count convention; \<open>FlatForward\<close> and
  \<open>QuantoTermStructure\<close> are the two curves the code under study constructs itself, with
  the constructor arguments it passes.
\<close>

datatype DayCounter = Actual365Fixed | Actual360 | ActualActual | Thirty360

datatype Calendar = NullCalendar | TARGET

datatype BlackVolTermStructure = BlackVolSurface string DayCounter

datatype 'r YieldTermStructure =
    MarketCurve string DayCounter
  | FlatForward nat Calendar "'r Quote Handle" DayCounter
  | QuantoTermStructure
      "'r YieldTermStructure Handle"
      "'r YieldTermStructure Handle"
      "'r YieldTermStructure Handle"
      "BlackVolTermStructure Handle"
      'r
      "BlackVolTermStructure Handle"
      'r
      'r

text \<open>The day-count convention a curve was constructed with, where it has one of its own.\<close>

fun conventionOf :: "'r YieldTermStructure \<Rightarrow> DayCounter option" where
  "conventionOf (MarketCurve n dc) = Some dc"
| "conventionOf (FlatForward n cal q dc) = Some dc"
| "conventionOf (QuantoTermStructure d r f ev k fx atm rho) = None"

fun volConventionOf :: "BlackVolTermStructure \<Rightarrow> DayCounter" where
  "volConventionOf (BlackVolSurface n dc) = dc"

section \<open>The equity index\<close>

text \<open>
  Modelled from the spec: \<^verbatim>\<open>EquityIndex\<close> (ql/indexes/equityindex.hpp, not among the
  sources), a named index bound to an interest-rate (domestic) curve, a dividend
  (forecast) curve and a spot quote, each through a handle.  Historical fixings are kept
  by index name outside the object.
\<close>

record 'r EquityIndex =
  name :: string
  equityInterestRateCurve :: "'r YieldTermStructure Handle"
  equityDividendCurve :: "'r YieldTermStructure Handle"
  spot :: "'r Quote Handle"

text \<open>
  The member functions of absent classes that the code calls are parameters of the model:
  \<^verbatim>\<open>EquityIndex::fixing(date)\<close>, which may throw; \<^verbatim>\<open>EquityIndex::clone(interest, dividend,
  spot)\<close>; and \<^verbatim>\<open>referenceDate()\<close> of a yield curve and of a volatility surface.
\<close>

record 'r Collaborators =
  fixing :: "'r EquityIndex \<Rightarrow> Date \<Rightarrow> error + 'r"
  clone :: "'r EquityIndex \<Rightarrow> 'r YieldTermStructure Handle
              \<Rightarrow> 'r YieldTermStructure Handle \<Rightarrow> 'r Quote Handle \<Rightarrow> 'r EquityIndex"
  yieldReferenceDate :: "'r YieldTermStructure \<Rightarrow> Date"
  volReferenceDate :: "BlackVolTermStructure \<Rightarrow> Date"

section \<open>Cash flows, pricers and the object store\<close>

type_synonym pricer_ref = nat
type_synonym cashflow_ref = nat

text \<open>
  Modelled from the spec: \<^verbatim>\<open>IndexedCashFlow\<close> (ql/cashflows/indexedcashflow.hpp, not among
  the sources) owns notional, index, base, fixing and payment dates and the growth-only
  flag; as a lazy object it keeps an optional cached amount and a validity flag.  The
  index is a \<^verbatim>\<open>shared_ptr\<close> and may be null.
\<close>

record ('r, 'i) IndexedCashFlow =
  notional :: 'r
  index :: "'i option"
  baseDate :: Date
  fixingDate :: Date
  paymentDate :: Date
  growthOnly :: bool
  calculated :: bool
  cachedAmount :: "'r option"

definition IndexedCashFlow ::
  "'r \<Rightarrow> 'i option \<Rightarrow> Date \<Rightarrow> Date \<Rightarrow> Date \<Rightarrow> bool \<Rightarrow> ('r, 'i) IndexedCashFlow" where
  "IndexedCashFlow notional' index' baseDate' fixingDate' paymentDate' growthOnly' =
     \<lparr>notional = notional', index = index', baseDate = baseDate', fixingDate = fixingDate',
      paymentDate = paymentDate', growthOnly = growthOnly',
      calculated = False, cachedAmount = None\<rparr>"

text \<open>\<^verbatim>\<open>EquityCashFlow\<close> adds the pricer, a shared pointer that may be null.\<close>

record 'r EquityCashFlow = "('r, 'r EquityIndex) IndexedCashFlow" +
  pricer :: "pricer_ref option"

definition EquityCashFlow ::
  "'r \<Rightarrow> 'r EquityIndex option \<Rightarrow> Date \<Rightarrow> Date \<Rightarrow> Date \<Rightarrow> bool \<Rightarrow> 'r EquityCashFlow" where
  "EquityCashFlow notional' index' baseDate' fixingDate' paymentDate' growthOnly' =
     IndexedCashFlow.extend
       (IndexedCashFlow notional' index' baseDate' fixingDate' paymentDate' growthOnly')
       (EquityCashFlow.fields None)"

text \<open>
  \<^verbatim>\<open>EquityQuantoCashFlowPricer\<close>: the four market-data handles that the constructor
  stores and the members that \<^verbatim>\<open>initialize\<close> sets.

  Modelled from the spec: \<^verbatim>\<open>Observable\<close> (ql/patterns/observable.hpp, not among the
  sources), whose state is the set of registered observers; here they are cash flows.
\<close>

record 'r EquityQuantoCashFlowPricer =
  quantoCurrencyTermStructure :: "'r YieldTermStructure Handle"
  equityVolatility :: "BlackVolTermStructure Handle"
  fxVolatility :: "BlackVolTermStructure Handle"
  correlation :: "'r Quote Handle"
  pricerIndex :: "'r EquityIndex option"
  pricerBaseDate :: Date
  pricerFixingDate :: Date
  growthOnlyPayoff :: bool
  observers :: "cashflow_ref set"

text \<open>
  Pricers are shared between cash flows and cash flows observe pricers, so both live in a
  store addressed by references.  Data members are written without the trailing
  underscore of the source, which Isabelle reserves; where the bare name is taken by an
  accessor the member is \<open>pricerIndex\<close>, \<open>pricerBaseDate\<close>, \<open>pricerFixingDate\<close> (the pricer's
  \<^verbatim>\<open>index_\<close>, \<^verbatim>\<open>baseDate_\<close>, \<^verbatim>\<open>fixingDate_\<close>) and \<open>cachedAmount\<close> (the cash flow's
  \<^verbatim>\<open>amount_\<close>).
\<close>

record 'r World =
  pricers :: "pricer_ref \<Rightarrow> 'r EquityQuantoCashFlowPricer"
  cashFlows :: "cashflow_ref \<Rightarrow> 'r EquityCashFlow"

section \<open>The quanto pricer (ql/cashflows/equitycashflow.cpp)\<close>

text \<open>\<^verbatim>\<open>configureDividendHandle\<close>, lines 34 to 43.\<close>

definition configureDividendHandle ::
  "'r::zero YieldTermStructure Handle \<Rightarrow> 'r YieldTermStructure Handle" where
  "configureDividendHandle dividendHandle =
     (if dividendHandle = None
      then let flatTs = FlatForward 0 NullCalendar (Some (SimpleQuote 0)) Actual365Fixed
           in Some flatTs
      else dividendHandle)"

text \<open>
  \<^verbatim>\<open>EquityQuantoCashFlowPricer::initialize\<close>, lines 103 to 129.  The members are assigned
  as the checks go, so the pricer is returned as it stands when a check throws, beside
  the error; \<open>None\<close> is the normal return.  The dynamic cast of the cash flow's index
  yields null exactly when the index is null, since the constructor of the cash flow
  takes an equity index.
\<close>

definition initialize ::
  "'r Collaborators \<Rightarrow> 'r EquityQuantoCashFlowPricer \<Rightarrow> 'r EquityCashFlow
     \<Rightarrow> 'r EquityQuantoCashFlowPricer \<times> error option" where
  "initialize K p cashFlow =
     (let p1 = p\<lparr>pricerIndex := index cashFlow\<rparr> in
      if pricerIndex p1 = None then (p1, Some (Error ''Equity index required.''))
      else
        let p2 = p1\<lparr>pricerBaseDate := baseDate cashFlow, pricerFixingDate := fixingDate cashFlow\<rparr> in
        if \<not> date_ge (pricerFixingDate p2) (pricerBaseDate p2)
        then (p2, Some (Error ''Fixing date cannot fall before base date.''))
        else
          let p3 = p2\<lparr>growthOnlyPayoff := growthOnly cashFlow\<rparr> in
          (case quantoCurrencyTermStructure p3 of
             None \<Rightarrow>
               (p3, Some (Error ''Quanto currency term structure handle cannot be empty.''))
           | Some q \<Rightarrow>
          (case equityVolatility p3 of
             None \<Rightarrow>
               (p3, Some (Error ''Equity volatility term structure handle cannot be empty.''))
           | Some ev \<Rightarrow>
          (case fxVolatility p3 of
             None \<Rightarrow>
               (p3, Some (Error ''FX volatility term structure handle cannot be empty.''))
           | Some fx \<Rightarrow>
          (case correlation p3 of
             None \<Rightarrow> (p3, Some (Error ''Correlation handle cannot be empty.''))
           | Some rho \<Rightarrow>
               if \<not> (date_eq (yieldReferenceDate K q) (volReferenceDate K ev)
                     \<and> date_eq (volReferenceDate K ev) (volReferenceDate K fx))
               then (p3, Some (Error (''Quanto currency term structure, equity and FX ''
                       @ ''volatility need to have the same reference date.'')))
               else (p3, None))))))"

text \<open>
  The term structure that \<^verbatim>\<open>price()\<close> builds at lines 135 to 142, given the strike and
  the correlation quote it has read.
\<close>

definition quantoTermStructure ::
  "'r::{zero,one} EquityQuantoCashFlowPricer \<Rightarrow> 'r EquityIndex \<Rightarrow> 'r \<Rightarrow> 'r Quote
     \<Rightarrow> 'r YieldTermStructure" where
  "quantoTermStructure p idx strike rho =
     (let dividendHandle = configureDividendHandle (equityDividendCurve idx)
      in QuantoTermStructure dividendHandle (quantoCurrencyTermStructure p)
           (equityInterestRateCurve idx) (equityVolatility p) strike (fxVolatility p) 1
           (quoteValue rho))"

text \<open>
  \<^verbatim>\<open>EquityQuantoCashFlowPricer::price\<close>, lines 132 to 156.  Every call that can throw is a
  branch, in the order of evaluation: the strike, the correlation value, the two fixings
  of the clone.  A pricer that was never initialized has a null index.

  Modelled from the spec: \<^verbatim>\<open>Handle::operator->\<close> (ql/handle.hpp, not among the sources);
  querying an empty handle, here in \<^verbatim>\<open>correlation_->value()\<close>, fails with an error.
\<close>

definition price ::
  "'r::{zero,one,minus,inverse} Collaborators \<Rightarrow> 'r EquityQuantoCashFlowPricer \<Rightarrow> error + 'r" where
  "price K p =
     (case pricerIndex p of
        None \<Rightarrow> Inl NullPointer
      | Some idx \<Rightarrow>
     (case fixing K idx (pricerFixingDate p) of
        Inl e \<Rightarrow> Inl e
      | Inr strike \<Rightarrow>
     (case correlation p of
        None \<Rightarrow> Inl (Error ''empty Handle cannot be dereferenced'')
      | Some rho \<Rightarrow>
     (let quantoIndex = clone K idx (quantoCurrencyTermStructure p)
                          (Some (quantoTermStructure p idx strike rho)) (spot idx)
      in case fixing K quantoIndex (pricerBaseDate p) of
           Inl e \<Rightarrow> Inl e
         | Inr I0 \<Rightarrow>
        (case fixing K quantoIndex (pricerFixingDate p) of
           Inl e \<Rightarrow> Inl e
         | Inr I1 \<Rightarrow>
             if growthOnlyPayoff p then Inr (I1 / I0 - 1) else Inr (I1 / I0))))))"

section \<open>The equity cash flow (ql/cashflows/equitycashflow.cpp)\<close>

text \<open>
  Modelled from the spec: \<^verbatim>\<open>Observer::registerWith\<close>, \<^verbatim>\<open>Observer::unregisterWith\<close>
  (ql/patterns/observable.hpp, not among the sources) add the caller to the target's set of
  observers and remove it; \<^verbatim>\<open>update()\<close> of a lazy object marks its cached state invalid.
  (It also forwards the notification to the cash flow's own observers, none of which is
  part of this model.)
\<close>

definition registerWith :: "cashflow_ref \<Rightarrow> pricer_ref \<Rightarrow> 'r World \<Rightarrow> 'r World" where
  "registerWith c h w =
     w\<lparr>pricers := (pricers w)(h := (pricers w h)\<lparr>observers := insert c (observers (pricers w h))\<rparr>)\<rparr>"

definition unregisterWith :: "cashflow_ref \<Rightarrow> pricer_ref \<Rightarrow> 'r World \<Rightarrow> 'r World" where
  "unregisterWith c h w =
     w\<lparr>pricers := (pricers w)(h := (pricers w h)\<lparr>observers := observers (pricers w h) - {c}\<rparr>)\<rparr>"

definition update :: "cashflow_ref \<Rightarrow> 'r World \<Rightarrow> 'r World" where
  "update c w = w\<lparr>cashFlows := (cashFlows w)(c := (cashFlows w c)\<lparr>calculated := False\<rparr>)\<rparr>"

text \<open>\<^verbatim>\<open>EquityCashFlow::setPricer\<close>, lines 66 to 75, on the cash flow at reference \<open>c\<close>.\<close>

definition setPricer :: "cashflow_ref \<Rightarrow> pricer_ref option \<Rightarrow> 'r World \<Rightarrow> 'r World" where
  "setPricer c pricer' w =
     (let w1 = (case pricer (cashFlows w c) of
                  Some old \<Rightarrow> unregisterWith c old w
                | None \<Rightarrow> w);
          w2 = w1\<lparr>cashFlows := (cashFlows w1)(c := (cashFlows w1 c)\<lparr>pricer := pricer'\<rparr>)\<rparr>;
          w3 = (case pricer (cashFlows w2 c) of
                  Some new \<Rightarrow> registerWith c new w2
                | None \<Rightarrow> w2)
      in update c w3)"

text \<open>
  Modelled from the spec: \<^verbatim>\<open>Handle.linkTo\<close> on the handle that a pricer holds for its
  quanto-currency curve.  The held reference is rebound (to nothing when \<open>h\<close> is \<open>None\<close>) and
  the change is notified: the pricer forwards it to its observers, whose \<^verbatim>\<open>update()\<close> marks
  them stale.
\<close>

definition linkQuantoCurveTo ::
  "pricer_ref \<Rightarrow> 'r YieldTermStructure Handle \<Rightarrow> 'r World \<Rightarrow> 'r World" where
  "linkQuantoCurveTo pr h w =
     w\<lparr>pricers := (pricers w)(pr := (pricers w pr)\<lparr>quantoCurrencyTermStructure := h\<rparr>),
       cashFlows := (\<lambda>c. if c \<in> observers (pricers w pr)
                          then (cashFlows w c)\<lparr>calculated := False\<rparr>
                          else cashFlows w c)\<rparr>"

text \<open>
  Modelled from the spec: \<^verbatim>\<open>IndexedCashFlow::amount\<close> (ql/cashflows/indexedcashflow.cpp,
  not among the sources).  A valid cached amount is returned as it is; otherwise the
  amount is recomputed from the index fixings at the base and fixing dates, cached and
  marked valid.  The spec gives the payoff as the index ratio, less one when growth-only,
  and its end-to-end scenario gives the amount as the notional times that ratio, as the
  pricer branch of \<^verbatim>\<open>EquityCashFlow::amount\<close> does; the model follows the scenario.
\<close>

definition IndexedCashFlow_amount ::
  "'r::{zero,one,minus,times,inverse} Collaborators \<Rightarrow> cashflow_ref \<Rightarrow> 'r World
     \<Rightarrow> (error + 'r) \<times> 'r World" where
  "IndexedCashFlow_amount K c w =
     (let cf = cashFlows w c in
      case (calculated cf, cachedAmount cf) of
        (True, Some a) \<Rightarrow> (Inr a, w)
      | _ \<Rightarrow>
       (case index cf of
          None \<Rightarrow> (Inl NullPointer, w)
        | Some idx \<Rightarrow>
         (case fixing K idx (baseDate cf) of
            Inl e \<Rightarrow> (Inl e, w)
          | Inr I0 \<Rightarrow>
           (case fixing K idx (fixingDate cf) of
              Inl e \<Rightarrow> (Inl e, w)
            | Inr I1 \<Rightarrow>
               (let a = (if growthOnly cf then notional cf * (I1 / I0 - 1)
                         else notional cf * (I1 / I0))
                in (Inr a,
                    w\<lparr>cashFlows := (cashFlows w)
                        (c := cf\<lparr>calculated := True, cachedAmount := Some a\<rparr>)\<rparr>))))))"

text \<open>
  What \<open>IndexedCashFlow_amount\<close> computes when it does not answer from the cache, as a
  function of the cash flow alone.
\<close>

definition freshAmount ::
  "'r::{zero,one,minus,times,inverse} Collaborators \<Rightarrow> 'r EquityCashFlow \<Rightarrow> error + 'r" where
  "freshAmount K cf =
     (case index cf of
        None \<Rightarrow> Inl NullPointer
      | Some idx \<Rightarrow>
       (case fixing K idx (baseDate cf) of
          Inl e \<Rightarrow> Inl e
        | Inr I0 \<Rightarrow>
         (case fixing K idx (fixingDate cf) of
            Inl e \<Rightarrow> Inl e
          | Inr I1 \<Rightarrow>
              Inr (if growthOnly cf then notional cf * (I1 / I0 - 1)
                   else notional cf * (I1 / I0)))))"

text \<open>
  \<^verbatim>\<open>EquityCashFlow::amount\<close>, lines 78 to 84.  The pricer is a shared object that
  \<^verbatim>\<open>initialize\<close> changes, so the store is returned beside the result.  The pricer branch
  neither reads nor writes the cached amount.
\<close>

definition amount ::
  "'r::{zero,one,minus,times,inverse} Collaborators \<Rightarrow> cashflow_ref \<Rightarrow> 'r World
     \<Rightarrow> (error + 'r) \<times> 'r World" where
  "amount K c w =
     (let cf = cashFlows w c in
      case pricer cf of
        None \<Rightarrow> IndexedCashFlow_amount K c w
      | Some pr \<Rightarrow>
         (case initialize K (pricers w pr) cf of
            (p', failure) \<Rightarrow>
              (let w' = w\<lparr>pricers := (pricers w)(pr := p')\<rparr> in
               case failure of
                 Some e \<Rightarrow> (Inl e, w')
               | None \<Rightarrow>
                  (case price K p' of
                     Inl e \<Rightarrow> (Inl e, w')
                   | Inr v \<Rightarrow> (Inr (notional cf * v), w')))))"


section \<open>The zero-inflation cash flow (ql/cashflows/zeroinflationcashflow.cpp)\<close>

text \<open>
  \<^verbatim>\<open>Period\<close>, \<^verbatim>\<open>CPI::InterpolationType\<close> and \<^verbatim>\<open>ZeroInflationIndex\<close> are declared outside the
  sources; the cash flow only stores them and passes them on.
\<close>

datatype TimeUnit = Days | Weeks | Months | Years

record Period =
  periodLength :: int
  periodUnits :: TimeUnit

datatype InterpolationType = AsIndex | Flat | Linear

datatype ZeroInflationIndex = ZeroInflationIndex string

record 'r ZeroInflationCashFlow = "('r, ZeroInflationIndex) IndexedCashFlow" +
  zeroInflationIndex :: "ZeroInflationIndex option"
  interpolation :: InterpolationType
  startDate :: Date
  endDate :: Date
  observationLag :: Period

text \<open>
  The constructor, lines 28 to 40.  \<^verbatim>\<open>Date - Period\<close> (ql/time/date.cpp) is a parameter; it
  throws when the result leaves the range of dates, which is \<open>None\<close>, and then no cash flow
  is constructed.
\<close>

definition ZeroInflationCashFlow ::
  "(Date \<Rightarrow> Period \<Rightarrow> Date option) \<Rightarrow> 'r \<Rightarrow> ZeroInflationIndex option \<Rightarrow> InterpolationType
     \<Rightarrow> Date \<Rightarrow> Date \<Rightarrow> Period \<Rightarrow> Date \<Rightarrow> bool \<Rightarrow> 'r ZeroInflationCashFlow option" where
  "ZeroInflationCashFlow minusPeriod notional' index' observationInterpolation startDate' endDate'
       observationLag' paymentDate' growthOnly' =
     (case minusPeriod startDate' observationLag' of
        None \<Rightarrow> None
      | Some shiftedStart \<Rightarrow>
       (case minusPeriod endDate' observationLag' of
          None \<Rightarrow> None
        | Some shiftedEnd \<Rightarrow>
            Some (IndexedCashFlow.extend
                    (IndexedCashFlow notional' index' shiftedStart shiftedEnd
                       paymentDate' growthOnly')
                    (ZeroInflationCashFlow.fields index' observationInterpolation
                       startDate' endDate' observationLag'))))"

text \<open>
  \<^verbatim>\<open>baseFixing\<close> and \<^verbatim>\<open>indexFixing\<close>, lines 43 to 52.  \<^verbatim>\<open>CPI::laggedFixing\<close>
  (ql/cashflows/cpicoupon.cpp) is a parameter; it may throw.
\<close>

type_synonym 'r LaggedFixing =
  "ZeroInflationIndex option \<Rightarrow> Date \<Rightarrow> Period \<Rightarrow> InterpolationType \<Rightarrow> error + 'r"

definition baseFixing :: "'r LaggedFixing \<Rightarrow> 'r ZeroInflationCashFlow \<Rightarrow> error + 'r" where
  "baseFixing laggedFixing cf =
     laggedFixing (zeroInflationIndex cf) (startDate cf) (observationLag cf) (interpolation cf)"

definition indexFixing :: "'r LaggedFixing \<Rightarrow> 'r ZeroInflationCashFlow \<Rightarrow> error + 'r" where
  "indexFixing laggedFixing cf =
     laggedFixing (zeroInflationIndex cf) (endDate cf) (observationLag cf) (interpolation cf)"

section \<open>Sample data\<close>

text \<open>
  The inputs at which the theorems below are evaluated.  Amounts are in \<^typ>\<open>real\<close>.  The
  dates carry the fields the real calendar gives them.
\<close>

definition date_2020_01_02 :: Date where
  "date_2020_01_02 = \<lparr>serialNumber = 43832, weekday = Thursday, dayOfMonth = 2,
     dayOfYear = 2, month = January, year = 2020\<rparr>"

definition date_2020_07_01 :: Date where
  "date_2020_07_01 = \<lparr>serialNumber = 44013, weekday = Wednesday, dayOfMonth = 1,
     dayOfYear = 183, month = July, year = 2020\<rparr>"

definition date_2020_10_01 :: Date where
  "date_2020_10_01 = \<lparr>serialNumber = 44105, weekday = Thursday, dayOfMonth = 1,
     dayOfYear = 275, month = October, year = 2020\<rparr>"

definition date_2021_01_01 :: Date where
  "date_2021_01_01 = \<lparr>serialNumber = 44197, weekday = Friday, dayOfMonth = 1,
     dayOfYear = 1, month = January, year = 2021\<rparr>"

text \<open>
  Market data: every caller-supplied curve and surface is on Actual/360.  All of them have
  1 July 2020 as reference date but \<open>staleVol\<close>, which is as of 2 January 2020.
\<close>

definition eurCurve :: "real YieldTermStructure" where
  "eurCurve = MarketCurve ''EUR discount'' Actual360"

definition jpyCurve :: "real YieldTermStructure" where
  "jpyCurve = MarketCurve ''JPY discount'' Actual360"

definition equityVol :: BlackVolTermStructure where
  "equityVol = BlackVolSurface ''SX5E volatility'' Actual360"

definition fxVol :: BlackVolTermStructure where
  "fxVol = BlackVolSurface ''EURJPY volatility'' Actual360"

definition staleVol :: BlackVolTermStructure where
  "staleVol = BlackVolSurface ''EURJPY volatility as of January'' Actual360"

definition index_sample :: "real EquityIndex" where
  "index_sample = \<lparr>name = ''SX5E'', equityInterestRateCurve = Some eurCurve,
     equityDividendCurve = None, spot = Some (SimpleQuote 100)\<rparr>"

text \<open>An index with no curve and no spot bound at all.\<close>

definition bareIndex_sample :: "real EquityIndex" where
  "bareIndex_sample = \<lparr>name = ''SX5E'', equityInterestRateCurve = None,
     equityDividendCurve = None, spot = None\<rparr>"

text \<open>
  The collaborators: the index fixes at 100 on 2 January 2020 and at 110 on any other
  date, whatever curves it is bound to (both dates are past fixings); \<open>clone\<close> rebinds the
  three handles.
\<close>

definition K_sample :: "real Collaborators" where
  "K_sample = \<lparr>
     fixing = (\<lambda>idx d. if serialNumber d = 43832 then Inr 100 else Inr 110),
     clone = (\<lambda>idx interest dividend spot'.
                idx\<lparr>equityInterestRateCurve := interest, equityDividendCurve := dividend,
                    spot := spot'\<rparr>),
     yieldReferenceDate = (\<lambda>c. date_2020_07_01),
     volReferenceDate = (\<lambda>v. if v = staleVol then date_2020_01_02 else date_2020_07_01)\<rparr>"

definition pricer_sample :: "real EquityQuantoCashFlowPricer" where
  "pricer_sample = \<lparr>quantoCurrencyTermStructure = Some jpyCurve,
     equityVolatility = Some equityVol, fxVolatility = Some fxVol,
     correlation = Some (SimpleQuote (3 / 10)),
     pricerIndex = None, pricerBaseDate = date_2020_01_02,
     pricerFixingDate = date_2020_01_02, growthOnlyPayoff = False, observers = {}\<rparr>"

definition emptyPricer_sample :: "real EquityQuantoCashFlowPricer" where
  "emptyPricer_sample = pricer_sample\<lparr>quantoCurrencyTermStructure := None,
     equityVolatility := None, fxVolatility := None, correlation := None\<rparr>"

text \<open>
  Cash flows of notional 2 from 2 January to 1 July 2020; one with the dates reversed on
  the bare index; one with the dates reversed and a null index.
\<close>

definition cashFlow_sample :: "real EquityCashFlow" where
  "cashFlow_sample =
     EquityCashFlow 2 (Some index_sample) date_2020_01_02 date_2020_07_01 date_2020_07_01 False"

definition growthCashFlow_sample :: "real EquityCashFlow" where
  "growthCashFlow_sample =
     EquityCashFlow 2 (Some index_sample) date_2020_01_02 date_2020_07_01 date_2020_07_01 True"

definition reversedCashFlow_sample :: "real EquityCashFlow" where
  "reversedCashFlow_sample =
     EquityCashFlow 2 (Some bareIndex_sample) date_2020_07_01 date_2020_01_02 date_2020_07_01 False"

definition nullIndexCashFlow_sample :: "real EquityCashFlow" where
  "nullIndexCashFlow_sample =
     EquityCashFlow 2 None date_2020_07_01 date_2020_01_02 date_2020_07_01 False"

text \<open>
  Stores: freshly constructed cash flows without pricer; a cash flow without pricer holding
  a valid cached amount of 7; a cash flow registered with pricer 0 holding a valid cached
  amount of 7.
\<close>

definition world_sample :: "real World" where
  "world_sample = \<lparr>pricers = (\<lambda>r. pricer_sample), cashFlows = (\<lambda>r. cashFlow_sample)\<rparr>"


definition cachedWorld_sample :: "real World" where
  "cachedWorld_sample =
     \<lparr>pricers = (\<lambda>r. pricer_sample),
      cashFlows = (\<lambda>r. cashFlow_sample\<lparr>calculated := True, cachedAmount := Some 7\<rparr>)\<rparr>"

definition registeredWorld_sample :: "real World" where
  "registeredWorld_sample =
     \<lparr>pricers = (\<lambda>r. pricer_sample)(0 := pricer_sample\<lparr>observers := {0}\<rparr>),
      cashFlows = (\<lambda>r. cashFlow_sample)
        (0 := cashFlow_sample\<lparr>calculated := True, cachedAmount := Some 7, pricer := Some 0\<rparr>)\<rparr>"






text \<open>
  A zero-inflation cash flow from 1 October 2020 to 1 January 2021 observed with a lag of
  three months; \<open>minusPeriod_sample\<close> is \<^verbatim>\<open>Date - Period\<close> on the two dates used.
\<close>

definition threeMonths :: Period where
  "threeMonths = \<lparr>periodLength = 3, periodUnits = Months\<rparr>"

definition minusPeriod_sample :: "Date \<Rightarrow> Period \<Rightarrow> Date option" where
  "minusPeriod_sample d p =
     (if p = threeMonths \<and> serialNumber d = 44105 then Some date_2020_07_01
      else if p = threeMonths \<and> serialNumber d = 44197 then Some date_2020_10_01
      else None)"

definition laggedFixing_sample :: "real LaggedFixing" where
  "laggedFixing_sample idx d lag interp =
     (if serialNumber d = 44105 then Inr 104
      else if serialNumber d = 44197 then Inr 105
      else Inl (Error ''Missing fixing''))"

definition zeroInflationCashFlow_sample :: "real ZeroInflationCashFlow" where
  "zeroInflationCashFlow_sample =
     IndexedCashFlow.extend
       (IndexedCashFlow 1000000 (Some (ZeroInflationIndex ''EUHICP'')) date_2020_07_01
          date_2020_10_01 date_2021_01_01 False)
       (ZeroInflationCashFlow.fields (Some (ZeroInflationIndex ''EUHICP'')) Linear
          date_2020_10_01 date_2021_01_01 threeMonths)"

section \<open>Auxiliary facts\<close>

lemmas sample_defs =
  eurCurve_def jpyCurve_def equityVol_def fxVol_def staleVol_def index_sample_def
  bareIndex_sample_def K_sample_def pricer_sample_def emptyPricer_sample_def
  cashFlow_sample_def growthCashFlow_sample_def reversedCashFlow_sample_def
  nullIndexCashFlow_sample_def EquityCashFlow_def IndexedCashFlow_def
  IndexedCashFlow.defs EquityCashFlow.defs date_2020_01_02_def date_2020_07_01_def
  date_eq_def date_ge_def date_less_def

text \<open>
  \<open>initialize\<close> returns normally exactly when the cash flow has an index, its dates are in
  order, the four handles are linked and the three reference dates agree; the pricer then
  holds the cash flow's index, dates and payoff flag.
\<close>

lemma initialize_success:
  "initialize K p cf = (p', None) \<longleftrightarrow>
     (\<exists>idx q ev fx rho.
        index cf = Some idx \<and> date_ge (fixingDate cf) (baseDate cf)
      \<and> quantoCurrencyTermStructure p = Some q \<and> equityVolatility p = Some ev
      \<and> fxVolatility p = Some fx \<and> correlation p = Some rho
      \<and> date_eq (yieldReferenceDate K q) (volReferenceDate K ev)
      \<and> date_eq (volReferenceDate K ev) (volReferenceDate K fx)
      \<and> p' = p\<lparr>pricerIndex := Some idx, pricerBaseDate := baseDate cf,
                pricerFixingDate := fixingDate cf, growthOnlyPayoff := growthOnly cf\<rparr>)"
  by (auto simp: initialize_def Let_def split: option.splits if_splits)

lemma initialize_sample:
  "initialize K_sample pricer_sample cashFlow_sample =
     (pricer_sample\<lparr>pricerIndex := Some index_sample, pricerBaseDate := date_2020_01_02,
        pricerFixingDate := date_2020_07_01, growthOnlyPayoff := False\<rparr>, None)"
  by (simp add: initialize_def Let_def sample_defs)

lemma initialize_reversed_dates:
  "date_less (fixingDate cf) (baseDate cf) \<Longrightarrow>
   snd (initialize K p cf) =
     Some (if index cf = None then Error ''Equity index required.''
           else Error ''Fixing date cannot fall before base date.'')"
  by (simp add: initialize_def Let_def date_less_def date_ge_def)

lemma initialize_ignores_cache:
  "initialize K p (cf\<lparr>cachedAmount := a\<rparr>) = initialize K p cf"
  by (simp add: initialize_def Let_def)

text \<open>An error of \<open>initialize\<close> is what \<open>amount\<close> returns: \<open>price\<close> is not reached.\<close>

lemma amount_initialize_failure:
  "pricer (cashFlows w c) = Some pr \<Longrightarrow>
   snd (initialize K (pricers w pr) (cashFlows w c)) = Some e \<Longrightarrow>
   fst (amount K c w) = Inl e"
  by (auto simp: amount_def Let_def split: prod.splits)

lemma amount_no_pricer_stale:
  "pricer (cashFlows w c) = None \<Longrightarrow> \<not> calculated (cashFlows w c) \<Longrightarrow>
   index (cashFlows w c) = Some idx \<Longrightarrow>
   fixing K idx (baseDate (cashFlows w c)) = Inr I0 \<Longrightarrow>
   fixing K idx (fixingDate (cashFlows w c)) = Inr I1 \<Longrightarrow>
   fst (amount K c w) =
     Inr (if growthOnly (cashFlows w c) then notional (cashFlows w c) * (I1 / I0 - 1)
          else notional (cashFlows w c) * (I1 / I0))"
  by (simp add: amount_def IndexedCashFlow_amount_def Let_def)

lemma amount_no_pricer_cached:
  "pricer (cashFlows w c) = None \<Longrightarrow> calculated (cashFlows w c) \<Longrightarrow>
   cachedAmount (cashFlows w c) = Some a \<Longrightarrow> amount K c w = (Inr a, w)"
  by (simp add: amount_def IndexedCashFlow_amount_def Let_def)

lemma amount_pricer:
  "pricer (cashFlows w c) = Some pr \<Longrightarrow>
   fst (amount K c w) =
     (case initialize K (pricers w pr) (cashFlows w c) of
        (p', Some e) \<Rightarrow> Inl e
      | (p', None) \<Rightarrow>
          (case price K p' of
             Inl e \<Rightarrow> Inl e
           | Inr v \<Rightarrow> Inr (notional (cashFlows w c) * v)))
   \<and> pricers (snd (amount K c w)) pr = fst (initialize K (pricers w pr) (cashFlows w c))"
  by (auto simp: amount_def Let_def split: prod.splits option.splits sum.splits)

text \<open>On a stale cash flow the amount does not depend on what the cache holds.\<close>

lemma amount_stale_ignores_cache:
  assumes "\<not> calculated (cashFlows w c)"
  shows "fst (amount K c (w\<lparr>cashFlows := (cashFlows w)(c := (cashFlows w c)\<lparr>cachedAmount := a\<rparr>)\<rparr>))
         = fst (amount K c w)"
proof (cases "pricer (cashFlows w c)")
  case None
  with assms show ?thesis
    by (simp add: amount_def IndexedCashFlow_amount_def Let_def split: option.splits sum.splits)
next
  case (Some pr)
  then show ?thesis
    by (simp add: amount_def Let_def initialize_ignores_cache
          split: prod.splits option.splits sum.splits)
qed

text \<open>\<open>setPricer\<close>, also for a null pricer, and what it leaves alone.\<close>

lemma setPricer_stores:
  "pricer (cashFlows (setPricer c p' w) c) = p'
   \<and> \<not> calculated (cashFlows (setPricer c p' w) c)
   \<and> update c (setPricer c p' w) = setPricer c p' w"
  by (simp add: setPricer_def registerWith_def unregisterWith_def update_def Let_def
        split: option.splits)

lemma setPricer_registers:
  "c \<in> observers (pricers (setPricer c (Some p) w) p)"
  by (simp add: setPricer_def registerWith_def unregisterWith_def update_def Let_def
        split: option.splits)

lemma setPricer_unregisters:
  "pricer (cashFlows w c) = Some old \<Longrightarrow> p' \<noteq> Some old \<Longrightarrow>
   c \<notin> observers (pricers (setPricer c p' w) old)"
  by (auto simp: setPricer_def registerWith_def unregisterWith_def update_def Let_def
        split: option.splits)


lemma setPricer_sample:
  "setPricer 0 (Some 0) cachedWorld_sample = registeredWorld_sample\<lparr>cashFlows :=
     (\<lambda>r. cashFlow_sample\<lparr>calculated := True, cachedAmount := Some 7\<rparr>)
       (0 := cashFlow_sample\<lparr>calculated := False, cachedAmount := Some 7, pricer := Some 0\<rparr>)\<rparr>"
  by (simp add: setPricer_def registerWith_def unregisterWith_def update_def
        cachedWorld_sample_def registeredWorld_sample_def Let_def sample_defs fun_eq_iff)

text \<open>The constructor of the zero-inflation cash flow succeeds when both shifts do.\<close>

lemma ZeroInflationCashFlow_Some:
  "ZeroInflationCashFlow minusPeriod n idx interp s e lag pay g = Some cf \<longleftrightarrow>
     (\<exists>b f. minusPeriod s lag = Some b \<and> minusPeriod e lag = Some f
        \<and> cf = IndexedCashFlow.extend (IndexedCashFlow n idx b f pay g)
                 (ZeroInflationCashFlow.fields idx interp s e lag))"
  by (auto simp: ZeroInflationCashFlow_def split: option.splits)

lemma ZeroInflationCashFlow_sample:
  "ZeroInflationCashFlow minusPeriod_sample (1000000::real) (Some (ZeroInflationIndex ''EUHICP''))
     Linear date_2020_10_01 date_2021_01_01 threeMonths date_2021_01_01 False
   = Some zeroInflationCashFlow_sample"
  by (simp add: ZeroInflationCashFlow_def minusPeriod_sample_def zeroInflationCashFlow_sample_def
        date_2020_10_01_def date_2021_01_01_def)







lemma freshAmount_cache [simp]:
  "freshAmount K (cf\<lparr>calculated := x, cachedAmount := y\<rparr>) = freshAmount K cf"
  "freshAmount K (cf\<lparr>calculated := x\<rparr>) = freshAmount K cf"
  by (simp_all add: freshAmount_def split: option.splits sum.splits)







text \<open>
  \<open>price\<close> has no error of its own that names a handle, and with fixings that succeed it
  returns a value whatever the three curve handles hold.
\<close>

lemma price_errors:
  "price K p = Inl e \<Longrightarrow>
     e = NullPointer \<or> e = Error ''empty Handle cannot be dereferenced''
     \<or> (\<exists>i d. fixing K i d = Inl e)"
  by (auto simp: price_def Let_def split: option.splits sum.splits if_splits)

lemma price_ignores_curve_handles:
  "(\<And>i d. \<exists>v. fixing K i d = Inr v) \<Longrightarrow> pricerIndex p \<noteq> None \<Longrightarrow>
   correlation p \<noteq> None \<Longrightarrow> \<exists>v. price K p = Inr v"
proof -
  assume f: "\<And>i d. \<exists>v. fixing K i d = Inr v" and i: "pricerIndex p \<noteq> None"
    and c: "correlation p \<noteq> None"
  from i obtain idx where idx: "pricerIndex p = Some idx" by auto
  from c obtain rho where rho: "correlation p = Some rho" by auto
  from f obtain strike where s: "fixing K idx (pricerFixingDate p) = Inr strike" by blast
  let ?q = "clone K idx (quantoCurrencyTermStructure p)
              (Some (quantoTermStructure p idx strike rho)) (spot idx)"
  from f obtain I0 where i0: "fixing K ?q (pricerBaseDate p) = Inr I0" by blast
  from f obtain I1 where i1: "fixing K ?q (pricerFixingDate p) = Inr I1" by blast
  show ?thesis
    by (simp add: price_def idx rho s i0 i1 Let_def)
qed

lemma emptied_sample:
  "pricers (linkQuantoCurveTo 0 None
              (snd (amount K_sample 0 (setPricer 0 (Some 0) world_sample)))) 0 =
     pricer_sample\<lparr>quantoCurrencyTermStructure := None, pricerIndex := Some index_sample,
       pricerBaseDate := date_2020_01_02, pricerFixingDate := date_2020_07_01,
       growthOnlyPayoff := False, observers := {0}\<rparr>"
proof -
  have s: "setPricer 0 (Some 0) world_sample =
     \<lparr>pricers = (\<lambda>r. pricer_sample)(0 := pricer_sample\<lparr>observers := {0}\<rparr>),
      cashFlows = (\<lambda>r. cashFlow_sample)(0 := cashFlow_sample\<lparr>pricer := Some 0\<rparr>)\<rparr>"
    by (simp add: setPricer_def registerWith_def unregisterWith_def update_def world_sample_def
        Let_def sample_defs)
  have p: "pricer (cashFlows (setPricer 0 (Some 0) world_sample) 0) = Some 0"
    by (simp add: s)
  have i: "fst (initialize K_sample (pricers (setPricer 0 (Some 0) world_sample) 0)
                  (cashFlows (setPricer 0 (Some 0) world_sample) 0)) =
      pricer_sample\<lparr>pricerIndex := Some index_sample,
       pricerBaseDate := date_2020_01_02, pricerFixingDate := date_2020_07_01,
       growthOnlyPayoff := False, observers := {0}\<rparr>"
    by (simp add: s initialize_def Let_def sample_defs)
  from amount_pricer [OF p, of K_sample] i
  have "pricers (snd (amount K_sample 0 (setPricer 0 (Some 0) world_sample))) 0 =
      pricer_sample\<lparr>pricerIndex := Some index_sample,
       pricerBaseDate := date_2020_01_02, pricerFixingDate := date_2020_07_01,
       growthOnlyPayoff := False, observers := {0}\<rparr>"
    by simp
  then show ?thesis
    by (simp add: linkQuantoCurveTo_def pricer_sample_def)
qed

section \<open>The quanto pricer: what \<open>price\<close> computes\<close>

text \<open>
  C1.  On a pricer on which \<open>initialize\<close> has succeeded for a cash flow, \<open>price\<close> takes the
  strike as the index fixing at the fixing date, builds the quanto term structure from the
  dividend curve, the quanto-currency curve, the index's own interest-rate curve, the equity
  volatility with that strike, the FX volatility and the correlation value, clones the index
  with the quanto-currency curve as interest-rate curve, the quanto term structure as
  forecast curve and the same spot, and returns \<open>I1 / I0 - 1\<close> when the cash flow is
  growth-only and \<open>I1 / I0\<close> otherwise, \<open>I0\<close> and \<open>I1\<close> being the fixings of the clone at the
  base and fixing dates.  An error of a fixing is the result.
\<close>

theorem C1_price_after_initialize:
  assumes "initialize K p cf = (p', None)"
  shows "\<exists>idx rho. index cf = Some idx \<and> correlation p = Some rho \<and>
     price K p' =
       (case fixing K idx (fixingDate cf) of
          Inl e \<Rightarrow> Inl e
        | Inr strike \<Rightarrow>
           (let quantoTS = QuantoTermStructure
                  (configureDividendHandle (equityDividendCurve idx))
                  (quantoCurrencyTermStructure p) (equityInterestRateCurve idx)
                  (equityVolatility p) strike (fxVolatility p) 1 (quoteValue rho);
                quantoIndex = clone K idx (quantoCurrencyTermStructure p) (Some quantoTS) (spot idx)
            in case fixing K quantoIndex (baseDate cf) of
                 Inl e \<Rightarrow> Inl e
               | Inr I0 \<Rightarrow>
                  (case fixing K quantoIndex (fixingDate cf) of
                     Inl e \<Rightarrow> Inl e
                   | Inr I1 \<Rightarrow> Inr (if growthOnly cf then I1 / I0 - 1 else I1 / I0))))"
proof -
  from assms obtain idx rho where
    i: "index cf = Some idx" and r: "correlation p = Some rho" and
    p': "p' = p\<lparr>pricerIndex := Some idx, pricerBaseDate := baseDate cf,
                pricerFixingDate := fixingDate cf, growthOnlyPayoff := growthOnly cf\<rparr>"
    unfolding initialize_success by blast
  have "price K p' =
       (case fixing K idx (fixingDate cf) of
          Inl e \<Rightarrow> Inl e
        | Inr strike \<Rightarrow>
           (let quantoTS = QuantoTermStructure
                  (configureDividendHandle (equityDividendCurve idx))
                  (quantoCurrencyTermStructure p) (equityInterestRateCurve idx)
                  (equityVolatility p) strike (fxVolatility p) 1 (quoteValue rho);
                quantoIndex = clone K idx (quantoCurrencyTermStructure p) (Some quantoTS) (spot idx)
            in case fixing K quantoIndex (baseDate cf) of
                 Inl e \<Rightarrow> Inl e
               | Inr I0 \<Rightarrow>
                  (case fixing K quantoIndex (fixingDate cf) of
                     Inl e \<Rightarrow> Inl e
                   | Inr I1 \<Rightarrow> Inr (if growthOnly cf then I1 / I0 - 1 else I1 / I0))))"
    by (simp add: price_def p' r quantoTermStructure_def Let_def split: sum.splits)
  with i r show ?thesis by blast
qed

text \<open>
  On the sample cash flow, with fixings of 100 and 110, the initialized pricer prices the
  ratio 11/10.
\<close>

theorem C1_witness:
  "initialize K_sample pricer_sample cashFlow_sample =
     (pricer_sample\<lparr>pricerIndex := Some index_sample, pricerBaseDate := date_2020_01_02,
        pricerFixingDate := date_2020_07_01, growthOnlyPayoff := False\<rparr>, None)
   \<and> price K_sample (pricer_sample\<lparr>pricerIndex := Some index_sample,
        pricerBaseDate := date_2020_01_02, pricerFixingDate := date_2020_07_01,
        growthOnlyPayoff := False\<rparr>) = Inr (11 / 10)"
  using C1_price_after_initialize [OF initialize_sample] initialize_sample
  by (simp add: sample_defs)

section \<open>The equity cash flow: \<open>amount\<close>\<close>




section \<open>The quanto pricer: the checks of \<open>initialize\<close>\<close>

text \<open>
  C4, as stated, fails on two counts.  An empty handle does not always give the error that
  names it: the checks on the cash flow come first, so on a cash flow whose fixing date
  precedes its base date a pricer with all four handles empty fails with the date error.
  And \<open>price\<close> by itself does not fail on an emptied handle: a pricer is set, \<open>amount\<close>
  initializes it, its quanto-currency handle is emptied, and \<open>price\<close> called on it
  returns 110/100.
\<close>

theorem C4_counterexample:
  "quantoCurrencyTermStructure emptyPricer_sample = None
   \<and> snd (initialize K_sample emptyPricer_sample reversedCashFlow_sample)
       = Some (Error ''Fixing date cannot fall before base date.'')
   \<and> snd (initialize K_sample emptyPricer_sample reversedCashFlow_sample)
       \<noteq> Some (Error ''Quanto currency term structure handle cannot be empty.'')
   \<and> quantoCurrencyTermStructure
       (pricers (linkQuantoCurveTo 0 None
                   (snd (amount K_sample 0 (setPricer 0 (Some 0) world_sample)))) 0) = None
   \<and> price K_sample
       (pricers (linkQuantoCurveTo 0 None
                   (snd (amount K_sample 0 (setPricer 0 (Some 0) world_sample)))) 0)
       = Inr (110 / 100)
   \<and> price K_sample
       (pricers (linkQuantoCurveTo 0 None
                   (snd (amount K_sample 0 (setPricer 0 (Some 0) world_sample)))) 0)
       \<noteq> Inl (Error ''Quanto currency term structure handle cannot be empty.'')"
proof -
  have a: "quantoCurrencyTermStructure emptyPricer_sample = None
   \<and> snd (initialize K_sample emptyPricer_sample reversedCashFlow_sample)
       = Some (Error ''Fixing date cannot fall before base date.'')
   \<and> snd (initialize K_sample emptyPricer_sample reversedCashFlow_sample)
       \<noteq> Some (Error ''Quanto currency term structure handle cannot be empty.'')"
    by (simp add: initialize_def Let_def sample_defs)
  have b: "price K_sample
     (pricer_sample\<lparr>quantoCurrencyTermStructure := None, pricerIndex := Some index_sample,
       pricerBaseDate := date_2020_01_02, pricerFixingDate := date_2020_07_01,
       growthOnlyPayoff := False, observers := {0}\<rparr>) = Inr (110 / 100)"
    by (simp add: price_def quantoTermStructure_def Let_def sample_defs)
  from a b show ?thesis
    by (simp add: emptied_sample)
qed

text \<open>
  C4, amended.  On a cash flow that has an index and whose fixing date does not precede its
  base date, \<open>initialize\<close> fails with the error naming the first empty handle, in the order
  quanto-currency curve, equity volatility, FX volatility, correlation; with the four
  handles linked it fails with the reference-date error whenever the reference dates of the
  curve and the two surfaces are not all equal.  Whatever error \<open>initialize\<close> gives on the
  pricer a cash flow holds is the result of \<open>amount\<close>, cached amount or not.  \<open>price\<close>
  itself checks no handle: it fails only with the error of an index fixing, on
  dereferencing an empty correlation handle, or for want of an index.
\<close>

theorem C4_initialize_market_data:
  assumes "index cf \<noteq> None" and "date_ge (fixingDate cf) (baseDate cf)"
  shows
   "(quantoCurrencyTermStructure p = None \<longrightarrow>
       snd (initialize K p cf) =
         Some (Error ''Quanto currency term structure handle cannot be empty.''))
  \<and> (quantoCurrencyTermStructure p \<noteq> None \<and> equityVolatility p = None \<longrightarrow>
       snd (initialize K p cf) =
         Some (Error ''Equity volatility term structure handle cannot be empty.''))
  \<and> (quantoCurrencyTermStructure p \<noteq> None \<and> equityVolatility p \<noteq> None
       \<and> fxVolatility p = None \<longrightarrow>
       snd (initialize K p cf) =
         Some (Error ''FX volatility term structure handle cannot be empty.''))
  \<and> (quantoCurrencyTermStructure p \<noteq> None \<and> equityVolatility p \<noteq> None
       \<and> fxVolatility p \<noteq> None \<and> correlation p = None \<longrightarrow>
       snd (initialize K p cf) = Some (Error ''Correlation handle cannot be empty.''))
  \<and> (\<forall>q ev fx rho.
        quantoCurrencyTermStructure p = Some q \<and> equityVolatility p = Some ev
      \<and> fxVolatility p = Some fx \<and> correlation p = Some rho
      \<and> \<not> (date_eq (yieldReferenceDate K q) (volReferenceDate K ev)
            \<and> date_eq (volReferenceDate K ev) (volReferenceDate K fx)) \<longrightarrow>
       snd (initialize K p cf) =
         Some (Error (''Quanto currency term structure, equity and FX ''
                 @ ''volatility need to have the same reference date.'')))
  \<and> (\<forall>w c pr e.
        cashFlows w c = cf \<and> pricer cf = Some pr \<and> pricers w pr = p
      \<and> snd (initialize K p cf) = Some e \<longrightarrow>
       fst (amount K c w) = Inl e)
  \<and> (\<forall>p' e. price K p' = Inl e \<longrightarrow>
        e = NullPointer \<or> e = Error ''empty Handle cannot be dereferenced''
        \<or> (\<exists>i d. fixing K i d = Inl e))"
proof -
  have handles:
    "(quantoCurrencyTermStructure p = None \<longrightarrow>
       snd (initialize K p cf) =
         Some (Error ''Quanto currency term structure handle cannot be empty.''))
  \<and> (quantoCurrencyTermStructure p \<noteq> None \<and> equityVolatility p = None \<longrightarrow>
       snd (initialize K p cf) =
         Some (Error ''Equity volatility term structure handle cannot be empty.''))
  \<and> (quantoCurrencyTermStructure p \<noteq> None \<and> equityVolatility p \<noteq> None
       \<and> fxVolatility p = None \<longrightarrow>
       snd (initialize K p cf) =
         Some (Error ''FX volatility term structure handle cannot be empty.''))
  \<and> (quantoCurrencyTermStructure p \<noteq> None \<and> equityVolatility p \<noteq> None
       \<and> fxVolatility p \<noteq> None \<and> correlation p = None \<longrightarrow>
       snd (initialize K p cf) = Some (Error ''Correlation handle cannot be empty.''))"
    using assms by (auto simp: initialize_def Let_def)
  have dates:
    "\<forall>q ev fx rho.
        quantoCurrencyTermStructure p = Some q \<and> equityVolatility p = Some ev
      \<and> fxVolatility p = Some fx \<and> correlation p = Some rho
      \<and> \<not> (date_eq (yieldReferenceDate K q) (volReferenceDate K ev)
            \<and> date_eq (volReferenceDate K ev) (volReferenceDate K fx)) \<longrightarrow>
       snd (initialize K p cf) =
         Some (Error (''Quanto currency term structure, equity and FX ''
                 @ ''volatility need to have the same reference date.''))"
    using assms by (auto simp: initialize_def Let_def)
  have propagated:
    "\<forall>w c pr e.
        cashFlows w c = cf \<and> pricer cf = Some pr \<and> pricers w pr = p
      \<and> snd (initialize K p cf) = Some e \<longrightarrow>
       fst (amount K c w) = Inl e"
    using amount_initialize_failure by blast
  have noHandleCheck:
    "\<forall>p' e. price K p' = Inl e \<longrightarrow>
        e = NullPointer \<or> e = Error ''empty Handle cannot be dereferenced''
        \<or> (\<exists>i d. fixing K i d = Inl e)"
    using price_errors by blast
  from handles dates propagated noHandleCheck show ?thesis by blast
qed

text \<open>
  A cash flow holding a valid cached amount of 7 is given pricer 0, and its amount is 2
  times the price 11/10.  Once the pricer's quanto-currency handle is emptied, \<open>amount\<close>
  fails with the error naming that handle.  With an FX surface as of another date,
  \<open>initialize\<close> fails with the reference-date error.
\<close>

theorem C4_witness:
  "fst (amount K_sample 0 (setPricer 0 (Some 0) cachedWorld_sample)) = Inr (22 / 10)
   \<and> index (cashFlows (linkQuantoCurveTo 0 None (setPricer 0 (Some 0) cachedWorld_sample)) 0)
       \<noteq> None
   \<and> date_ge
       (fixingDate (cashFlows (linkQuantoCurveTo 0 None (setPricer 0 (Some 0) cachedWorld_sample)) 0))
       (baseDate (cashFlows (linkQuantoCurveTo 0 None (setPricer 0 (Some 0) cachedWorld_sample)) 0))
   \<and> cachedAmount (cashFlows (linkQuantoCurveTo 0 None (setPricer 0 (Some 0) cachedWorld_sample)) 0)
       = Some 7
   \<and> fst (amount K_sample 0 (linkQuantoCurveTo 0 None (setPricer 0 (Some 0) cachedWorld_sample)))
       = Inl (Error ''Quanto currency term structure handle cannot be empty.'')
   \<and> snd (initialize K_sample (pricer_sample\<lparr>fxVolatility := Some staleVol\<rparr>) cashFlow_sample)
       = Some (Error (''Quanto currency term structure, equity and FX ''
                 @ ''volatility need to have the same reference date.''))"
proof -
  let ?w = "linkQuantoCurveTo 0 None (setPricer 0 (Some 0) cachedWorld_sample)"
  have cf: "cashFlows ?w 0 =
      cashFlow_sample\<lparr>calculated := False, cachedAmount := Some 7, pricer := Some 0\<rparr>"
    by (simp add: linkQuantoCurveTo_def setPricer_sample registeredWorld_sample_def)
  have i: "index (cashFlows ?w 0) \<noteq> None"
    by (simp add: cf sample_defs)
  have d: "date_ge (fixingDate (cashFlows ?w 0)) (baseDate (cashFlows ?w 0))"
    by (simp add: cf sample_defs)
  have q: "quantoCurrencyTermStructure (pricers ?w 0) = None"
    by (simp add: linkQuantoCurveTo_def)
  have pr: "pricer (cashFlows ?w 0) = Some 0"
    by (simp add: cf)
  have ca: "cachedAmount (cashFlows ?w 0) = Some 7"
    by (simp add: cf)
  note t = C4_initialize_market_data [OF i d, of "pricers ?w 0" K_sample]
  from t q have e: "snd (initialize K_sample (pricers ?w 0) (cashFlows ?w 0)) =
      Some (Error ''Quanto currency term structure handle cannot be empty.'')"
    by blast
  from t e pr have a: "fst (amount K_sample 0 ?w) =
      Inl (Error ''Quanto currency term structure handle cannot be empty.'')"
    by blast
  have before: "fst (amount K_sample 0 (setPricer 0 (Some 0) cachedWorld_sample)) = Inr (22 / 10)"
    by (simp add: setPricer_sample registeredWorld_sample_def amount_def initialize_def
          price_def quantoTermStructure_def Let_def sample_defs)
  have i': "index cashFlow_sample \<noteq> None"
    by (simp add: sample_defs)
  have d': "date_ge (fixingDate cashFlow_sample) (baseDate cashFlow_sample)"
    by (simp add: sample_defs)
  have stale: "snd (initialize K_sample (pricer_sample\<lparr>fxVolatility := Some staleVol\<rparr>)
                 cashFlow_sample)
       = Some (Error (''Quanto currency term structure, equity and FX ''
                 @ ''volatility need to have the same reference date.''))"
    using C4_initialize_market_data
            [OF i' d', of "pricer_sample\<lparr>fxVolatility := Some staleVol\<rparr>" K_sample]
    by (simp add: sample_defs)
  from before i d ca a stale show ?thesis by blast
qed

section \<open>The quanto pricer: the dividend curve\<close>

text \<open>
  C5, as stated, fails: the curve substituted for an empty dividend handle does not take
  the day-count convention of the other curves.  With every curve and surface of the
  pricer and of the index on Actual/360, the substitute is on Actual/365 (Fixed).
\<close>

theorem C5_counterexample:
  "equityDividendCurve index_sample = None
   \<and> Option.bind (configureDividendHandle (equityDividendCurve index_sample)) conventionOf
       = Some Actual365Fixed
   \<and> Option.bind (quantoCurrencyTermStructure pricer_sample) conventionOf = Some Actual360
   \<and> Option.bind (equityInterestRateCurve index_sample) conventionOf = Some Actual360
   \<and> map_option volConventionOf (equityVolatility pricer_sample) = Some Actual360
   \<and> map_option volConventionOf (fxVolatility pricer_sample) = Some Actual360"
  by (simp add: configureDividendHandle_def sample_defs)

text \<open>
  C5, amended.  For an empty dividend handle the dividend input of the quanto term
  structure that \<open>price\<close> builds is a flat forward curve on a zero quote, with no settlement
  days, the null calendar and the Actual/365 (Fixed) convention, whatever the other curves
  are; a linked dividend handle is the input unchanged.
\<close>

theorem C5_dividend_input:
  "configureDividendHandle (None :: 'r::{zero,one} YieldTermStructure Handle) =
     Some (FlatForward 0 NullCalendar (Some (SimpleQuote 0)) Actual365Fixed)
   \<and> configureDividendHandle (Some d) = Some (d :: 'r YieldTermStructure)
   \<and> quantoTermStructure p idx strike rho =
       QuantoTermStructure
         (case equityDividendCurve idx of
            None \<Rightarrow> Some (FlatForward 0 NullCalendar (Some (SimpleQuote 0)) Actual365Fixed)
          | Some dividend \<Rightarrow> Some dividend)
         (quantoCurrencyTermStructure p) (equityInterestRateCurve idx) (equityVolatility p)
         strike (fxVolatility p) 1 (quoteValue rho)"
  by (simp add: configureDividendHandle_def quantoTermStructure_def Let_def split: option.splits)

text \<open>
  The term structure built for the sample index, which has no dividend curve, and for the
  same index with the euro curve as dividend curve.
\<close>

theorem C5_witness:
  "quantoTermStructure pricer_sample index_sample 110 (SimpleQuote (3 / 10)) =
     QuantoTermStructure
       (Some (FlatForward 0 NullCalendar (Some (SimpleQuote 0)) Actual365Fixed))
       (Some jpyCurve) (Some eurCurve) (Some equityVol) 110 (Some fxVol) 1 (3 / 10)
   \<and> quantoTermStructure pricer_sample (index_sample\<lparr>equityDividendCurve := Some eurCurve\<rparr>)
       110 (SimpleQuote (3 / 10)) =
     QuantoTermStructure (Some eurCurve)
       (Some jpyCurve) (Some eurCurve) (Some equityVol) 110 (Some fxVol) 1 (3 / 10)"
  using C5_dividend_input [of eurCurve pricer_sample index_sample 110 "SimpleQuote (3 / 10)"]
    C5_dividend_input [of eurCurve pricer_sample
      "index_sample\<lparr>equityDividendCurve := Some eurCurve\<rparr>" 110 "SimpleQuote (3 / 10)"]
  by (simp add: pricer_sample_def index_sample_def)

section \<open>The quanto pricer: dates out of order\<close>

text \<open>
  C6, as stated, fails: a cash flow whose fixing date precedes its base date is not always
  rejected with the date error.  The index is checked first, so a cash flow with a null
  index is rejected with the index error.
\<close>

theorem C6_counterexample:
  "date_less (fixingDate nullIndexCashFlow_sample) (baseDate nullIndexCashFlow_sample)
   \<and> snd (initialize K_sample pricer_sample nullIndexCashFlow_sample)
       = Some (Error ''Equity index required.'')
   \<and> snd (initialize K_sample pricer_sample nullIndexCashFlow_sample)
       \<noteq> Some (Error ''Fixing date cannot fall before base date.'')"
  by (simp add: initialize_def Let_def sample_defs)

text \<open>
  C6, amended.  \<open>initialize\<close> rejects every cash flow whose fixing date precedes its base
  date, whatever the pricer's handles hold and whatever curves the index is bound to: with
  the date error when the cash flow has an index, with the index error when it has none.
  The rejection is the result of \<open>initialize\<close> itself, and so of \<open>amount\<close> on a cash flow
  holding the pricer: \<open>price\<close> is not reached.
\<close>

theorem C6_initialize_rejects_reversed_dates:
  assumes "date_less (fixingDate cf) (baseDate cf)"
  shows "snd (initialize K p cf) =
           Some (if index cf = None then Error ''Equity index required.''
                 else Error ''Fixing date cannot fall before base date.'')
       \<and> (\<forall>w c pr. cashFlows w c = cf \<and> pricer cf = Some pr \<longrightarrow>
            fst (amount K c w) =
              Inl (if index cf = None then Error ''Equity index required.''
                   else Error ''Fixing date cannot fall before base date.''))"
proof -
  have r: "snd (initialize K p' cf) =
           Some (if index cf = None then Error ''Equity index required.''
                 else Error ''Fixing date cannot fall before base date.'')" for p'
    using assms by (rule initialize_reversed_dates)
  have "fst (amount K c w) =
              Inl (if index cf = None then Error ''Equity index required.''
                   else Error ''Fixing date cannot fall before base date.'')"
    if "cashFlows w c = cf" "pricer cf = Some pr" for w c pr
    using that r [of "pricers w pr"] amount_initialize_failure [of w c pr K] by simp
  with r show ?thesis by blast
qed

text \<open>
  The cash flow with reversed dates on an index with no curve at all, and a pricer with all
  four handles empty: the date error.
\<close>

theorem C6_witness:
  "date_less (fixingDate reversedCashFlow_sample) (baseDate reversedCashFlow_sample)
   \<and> equityInterestRateCurve bareIndex_sample = None
   \<and> equityDividendCurve bareIndex_sample = None
   \<and> index reversedCashFlow_sample = Some bareIndex_sample
   \<and> snd (initialize K_sample emptyPricer_sample reversedCashFlow_sample)
       = Some (Error ''Fixing date cannot fall before base date.'')"
  using C6_initialize_rejects_reversed_dates
          [of reversedCashFlow_sample K_sample emptyPricer_sample]
  by (simp add: sample_defs)

section \<open>The equity cash flow: \<open>setPricer\<close>\<close>

text \<open>
  C7.  \<open>setPricer\<close> with a pricer \<open>p\<close> removes the cash flow from the observers of the pricer
  it held before, stores \<open>p\<close>, adds the cash flow to the observers of \<open>p\<close> and marks the cash
  flow stale, leaving it exactly as a notification does (a further \<open>update\<close> changes
  nothing); the next \<open>amount\<close> is recomputed: it does not depend on the cached amount.
\<close>

theorem C7_setPricer:
  "(\<forall>old. pricer (cashFlows w c) = Some old \<and> old \<noteq> p \<longrightarrow>
      c \<notin> observers (pricers (setPricer c (Some p) w) old))
 \<and> pricer (cashFlows (setPricer c (Some p) w) c) = Some p
 \<and> c \<in> observers (pricers (setPricer c (Some p) w) p)
 \<and> \<not> calculated (cashFlows (setPricer c (Some p) w) c)
 \<and> update c (setPricer c (Some p) w) = setPricer c (Some p) w
 \<and> (\<forall>a. fst (amount K c
             ((setPricer c (Some p) w)
                \<lparr>cashFlows := (cashFlows (setPricer c (Some p) w))
                   (c := (cashFlows (setPricer c (Some p) w) c)\<lparr>cachedAmount := a\<rparr>)\<rparr>))
          = fst (amount K c (setPricer c (Some p) w)))"
proof -
  have 1: "\<forall>old. pricer (cashFlows w c) = Some old \<and> old \<noteq> p \<longrightarrow>
      c \<notin> observers (pricers (setPricer c (Some p) w) old)"
    using setPricer_unregisters [of w c _ "Some p"] by simp
  have 2: "\<forall>a. fst (amount K c
             ((setPricer c (Some p) w)
                \<lparr>cashFlows := (cashFlows (setPricer c (Some p) w))
                   (c := (cashFlows (setPricer c (Some p) w) c)\<lparr>cachedAmount := a\<rparr>)\<rparr>))
          = fst (amount K c (setPricer c (Some p) w))"
    using amount_stale_ignores_cache [of "setPricer c (Some p) w" c K]
      setPricer_stores [of c "Some p" w]
    by blast
  from 1 2 setPricer_stores [of c "Some p" w] setPricer_registers [of c p w]
  show ?thesis by blast
qed

text \<open>
  The cash flow registered with pricer 0, with a valid cached amount, is given pricer 1: it
  leaves the observers of pricer 0, joins those of pricer 1 and is stale.
\<close>

theorem C7_witness:
  "pricer (cashFlows registeredWorld_sample 0) = Some 0
   \<and> 0 \<in> observers (pricers registeredWorld_sample 0)
   \<and> calculated (cashFlows registeredWorld_sample 0)
   \<and> 0 \<notin> observers (pricers (setPricer 0 (Some 1) registeredWorld_sample) 0)
   \<and> pricer (cashFlows (setPricer 0 (Some 1) registeredWorld_sample) 0) = Some 1
   \<and> 0 \<in> observers (pricers (setPricer 0 (Some 1) registeredWorld_sample) 1)
   \<and> \<not> calculated (cashFlows (setPricer 0 (Some 1) registeredWorld_sample) 0)"
  using C7_setPricer [of registeredWorld_sample 0 1 K_sample]
  by (simp add: registeredWorld_sample_def)

section \<open>The zero-inflation cash flow\<close>

text \<open>
  C8.  On every zero-inflation cash flow, \<open>baseFixing\<close> is the lagged fixing of its
  zero-inflation index at its start date and \<open>indexFixing\<close> the one at its end date, both
  with the observation lag and the interpolation type that the cash flow stores, which are
  the ones it was constructed with.
\<close>

theorem C8_fixings_routed:
  assumes "ZeroInflationCashFlow minusPeriod n idx interp s e lag pay g = Some cf"
  shows "baseFixing L cf =
           L (zeroInflationIndex cf) (startDate cf) (observationLag cf) (interpolation cf)
       \<and> indexFixing L cf =
           L (zeroInflationIndex cf) (endDate cf) (observationLag cf) (interpolation cf)
       \<and> zeroInflationIndex cf = idx \<and> observationLag cf = lag \<and> interpolation cf = interp
       \<and> baseFixing L cf = L idx s lag interp
       \<and> indexFixing L cf = L idx e lag interp"
  using assms
  by (auto simp: ZeroInflationCashFlow_Some baseFixing_def indexFixing_def
        IndexedCashFlow.defs ZeroInflationCashFlow.defs IndexedCashFlow_def)

theorem C8_witness:
  "ZeroInflationCashFlow minusPeriod_sample (1000000::real) (Some (ZeroInflationIndex ''EUHICP''))
     Linear date_2020_10_01 date_2021_01_01 threeMonths date_2021_01_01 False
   = Some zeroInflationCashFlow_sample
   \<and> baseFixing laggedFixing_sample zeroInflationCashFlow_sample = Inr 104
   \<and> indexFixing laggedFixing_sample zeroInflationCashFlow_sample = Inr 105"
  using C8_fixings_routed [OF ZeroInflationCashFlow_sample, of laggedFixing_sample]
    ZeroInflationCashFlow_sample
  by (simp add: laggedFixing_sample_def date_2020_10_01_def date_2021_01_01_def
        zeroInflationCashFlow_sample_def IndexedCashFlow.defs ZeroInflationCashFlow.defs
        IndexedCashFlow_def)

text \<open>
  C9.  The constructor stores the start date less the observation lag as the base date of
  the indexed cash flow and the end date less the lag as its fixing date, and keeps the
  start and end dates themselves; \<open>baseFixing\<close> and \<open>indexFixing\<close> hand those unshifted
  dates, with the lag, to the lagged fixing.
\<close>

theorem C9_lag_shifted_dates:
  assumes "ZeroInflationCashFlow minusPeriod n idx interp s e lag pay g = Some cf"
  shows "minusPeriod s lag = Some (baseDate cf)
       \<and> minusPeriod e lag = Some (fixingDate cf)
       \<and> startDate cf = s \<and> endDate cf = e
       \<and> baseFixing L cf = L idx s lag interp
       \<and> indexFixing L cf = L idx e lag interp"
  using assms
  by (auto simp: ZeroInflationCashFlow_Some baseFixing_def indexFixing_def
        IndexedCashFlow.defs ZeroInflationCashFlow.defs IndexedCashFlow_def)

theorem C9_witness:
  "ZeroInflationCashFlow minusPeriod_sample (1000000::real) (Some (ZeroInflationIndex ''EUHICP''))
     Linear date_2020_10_01 date_2021_01_01 threeMonths date_2021_01_01 False
   = Some zeroInflationCashFlow_sample
   \<and> baseDate zeroInflationCashFlow_sample = date_2020_07_01
   \<and> fixingDate zeroInflationCashFlow_sample = date_2020_10_01
   \<and> startDate zeroInflationCashFlow_sample = date_2020_10_01
   \<and> endDate zeroInflationCashFlow_sample = date_2021_01_01"
  using C9_lag_shifted_dates [OF ZeroInflationCashFlow_sample, of laggedFixing_sample]
    ZeroInflationCashFlow_sample
  by (simp add: minusPeriod_sample_def date_2020_10_01_def date_2021_01_01_def threeMonths_def
        zeroInflationCashFlow_sample_def IndexedCashFlow.defs ZeroInflationCashFlow.defs
        IndexedCashFlow_def)

section \<open>Properties of the TARGET calendar\<close>

text \<open>
  C10.  A date is a TARGET business day exactly when it is neither a Saturday nor a Sunday
  and is none of: 1 January; Good Friday (the day of the year three before Easter Monday)
  from 2000 on; Easter Monday from 2000 on; 1 May from 2000 on; 25 December; 26 December
  from 2000 on; 31 December of 1998, 1999 or 2001.
\<close>

theorem C10_isBusinessDay:
  "isBusinessDay easterMonday date =
     (weekday date \<noteq> Saturday \<and> weekday date \<noteq> Sunday
      \<and> \<not> (dayOfMonth date = 1 \<and> month date = January)
      \<and> \<not> (dayOfYear date = easterMonday (year date) - 3 \<and> 2000 \<le> year date)
      \<and> \<not> (dayOfYear date = easterMonday (year date) \<and> 2000 \<le> year date)
      \<and> \<not> (dayOfMonth date = 1 \<and> month date = May \<and> 2000 \<le> year date)
      \<and> \<not> (dayOfMonth date = 25 \<and> month date = December)
      \<and> \<not> (dayOfMonth date = 26 \<and> month date = December \<and> 2000 \<le> year date)
      \<and> \<not> (dayOfMonth date = 31 \<and> month date = December
             \<and> (year date = 1998 \<or> year date = 1999 \<or> year date = 2001)))"
  unfolding isBusinessDay_def isWeekend_def Let_def
  by (simp only: if_bool_eq_conj de_Morgan_disj conj_assoc simp_thms)

text \<open>
  Good Friday 2000 is a holiday; Good Friday 1999, before the rule started, is a
  business day.
\<close>

theorem C10_witness:
  "\<not> isBusinessDay easterMonday_sample goodFriday2000
   \<and> isBusinessDay easterMonday_sample goodFriday1999"
  using C10_isBusinessDay [of easterMonday_sample goodFriday2000]
        C10_isBusinessDay [of easterMonday_sample goodFriday1999]
  by (simp add: easterMonday_sample_def goodFriday2000_def goodFriday1999_def)

end
